theory Spec2Isabelle
  imports Complex_Main "HOL-Library.Log_Nat" "HOL-Library.AList"
begin

section \<open>Python values the engine computes with\<close>

datatype py_error =
  IndexError | KeyError | ZeroDivisionError | OverflowError
  | AttributeError | ValueError | TypeError | NotImplementedError

subsection \<open>Binary64 floats\<close>

text \<open>
  A finite Python float is the rational number it denotes; the two infinities are the
  only other floats the modelled expressions can produce.  Every operation of the source
  that yields a float (true division, the product of an int and a float, a float
  literal) is the exact result rounded to the nearest binary64 value, ties to the even
  mantissa: 53 significant bits, least exponent \<open>-1074\<close>, infinity from \<open>2 ^ 1024\<close> on.
\<close>

definition ilog2 :: "rat \<Rightarrow> int" where
  "ilog2 x = (case quotient_of x of (p, q) \<Rightarrow>
     let e = bitlen p - bitlen q in if 2 powi e \<le> x then e else e - 1)"

definition rne :: "rat \<Rightarrow> int" where
  "rne x = (let f = \<lfloor>x\<rfloor>; d = x - of_int f in
     if d < 1 / 2 then f else if 1 / 2 < d then f + 1
     else if even f then f else f + 1)"

definition ulp_exp :: "rat \<Rightarrow> int" where
  "ulp_exp x = max (ilog2 \<bar>x\<bar> - 52) (- 1074)"

definition fl :: "rat \<Rightarrow> rat" where
  "fl x = (if x = 0 then 0
     else of_int (rne (x / 2 powi ulp_exp x)) * 2 powi ulp_exp x)"

datatype pyfloat = Fin rat | PosInf | NegInf

definition round_float :: "rat \<Rightarrow> pyfloat" where
  "round_float x = (let y = fl x in
     if y = 0 \<or> ilog2 \<bar>y\<bar> < 1024 then Fin y
     else if 0 < y then PosInf else NegInf)"

text \<open>\<open>int | float\<close>, the type of the class attribute \<open>SCALING\<close>.\<close>

datatype number = PInt int | PFloat rat

text \<open>A float literal of the source, such as \<open>0.6\<close>: the nearest float.\<close>

definition float_literal :: "rat \<Rightarrow> number" where
  "float_literal x = PFloat (fl x)"

text \<open>An int operand of a float operation is converted first; too large an int raises.\<close>

definition float_of_int :: "int \<Rightarrow> py_error + rat" where
  "float_of_int i = (case round_float (of_int i) of
     Fin y \<Rightarrow> Inr y | PosInf \<Rightarrow> Inl OverflowError | NegInf \<Rightarrow> Inl OverflowError)"

text \<open>\<open>a / b\<close> on two ints: the quotient itself is rounded, once.\<close>

definition int_truediv :: "int \<Rightarrow> int \<Rightarrow> py_error + rat" where
  "int_truediv a b = (if b = 0 then Inl ZeroDivisionError
     else case round_float (of_int a / of_int b) of
       Fin y \<Rightarrow> Inr y | PosInf \<Rightarrow> Inl OverflowError | NegInf \<Rightarrow> Inl OverflowError)"

definition float_truediv :: "rat \<Rightarrow> rat \<Rightarrow> py_error + pyfloat" where
  "float_truediv a b = (if b = 0 then Inl ZeroDivisionError else Inr (round_float (a / b)))"

text \<open>\<open>a / s\<close> for an int \<open>a\<close> and \<open>s : int | float\<close>.\<close>

definition py_truediv :: "int \<Rightarrow> number \<Rightarrow> py_error + pyfloat" where
  "py_truediv a s = (case s of
     PInt b \<Rightarrow> (case int_truediv a b of Inl e \<Rightarrow> Inl e | Inr y \<Rightarrow> Inr (Fin y))
   | PFloat b \<Rightarrow> (case float_of_int a of Inl e \<Rightarrow> Inl e | Inr fa \<Rightarrow> float_truediv fa b))"

text \<open>\<open>a * f\<close> for an int \<open>a\<close> and a float \<open>f\<close>.\<close>

definition int_mul_float :: "int \<Rightarrow> rat \<Rightarrow> py_error + pyfloat" where
  "int_mul_float a f = (case float_of_int a of
     Inl e \<Rightarrow> Inl e | Inr fa \<Rightarrow> Inr (round_float (fa * f)))"

text \<open>\<open>int(x)\<close> on a float truncates towards zero and raises on an infinity.\<close>

definition py_int :: "pyfloat \<Rightarrow> py_error + int" where
  "py_int x = (case x of
     Fin y \<Rightarrow> Inr (if 0 \<le> y then \<lfloor>y\<rfloor> else \<lceil>y\<rceil>)
   | PosInf \<Rightarrow> Inl OverflowError | NegInf \<Rightarrow> Inl OverflowError)"

subsection \<open>Lists, strings\<close>

text \<open>\<open>xs[i]\<close>: a negative index counts from the end, an index out of range raises.\<close>

definition list_index :: "'a list \<Rightarrow> int \<Rightarrow> py_error + 'a" where
  "list_index xs i =
     (if 0 \<le> i \<and> i < int (length xs) then Inr (xs ! nat i)
      else if i < 0 \<and> - int (length xs) \<le> i then Inr (xs ! nat (int (length xs) + i))
      else Inl IndexError)"

definition lower_letters :: string where
  "lower_letters = ''abcdefghijklmnopqrstuvwxyz''"

definition upper_letters :: string where
  "upper_letters = ''ABCDEFGHIJKLMNOPQRSTUVWXYZ''"

definition upper_char :: "char \<Rightarrow> char" where
  "upper_char c = (case map_of (zip lower_letters upper_letters) c of
     Some u \<Rightarrow> u | None \<Rightarrow> c)"

definition lower_char :: "char \<Rightarrow> char" where
  "lower_char c = (case map_of (zip upper_letters lower_letters) c of
     Some l \<Rightarrow> l | None \<Rightarrow> c)"

text \<open>\<open>str.capitalize\<close>, on the ASCII letters the catalog uses.\<close>

fun capitalize :: "string \<Rightarrow> string" where
  "capitalize [] = []"
| "capitalize (c # cs) = upper_char c # map lower_char cs"

definition digit_char :: "nat \<Rightarrow> char" where
  "digit_char d = ''0123456789'' ! d"

fun str_nat :: "nat \<Rightarrow> string" where
  "str_nat n = (if n < 10 then [digit_char n] else str_nat (n div 10) @ [digit_char (n mod 10)])"

text \<open>\<open>str(i)\<close>, as an f-string formats an int.\<close>

definition str_int :: "int \<Rightarrow> string" where
  "str_int i = (if i < 0 then CHR ''-'' # str_nat (nat (- i)) else str_nat (nat i))"

section \<open>Constants: \<open>ModifierType\<close> and \<open>Rarity\<close>\<close>

definition COMBAT_START :: int where "COMBAT_START = 0"
definition PRE_ATTACK :: int where "PRE_ATTACK = 1"
definition PRE_DEFEND :: int where "PRE_DEFEND = 2"
definition MID_ATTACK :: int where "MID_ATTACK = 3"
definition MID_DEFEND :: int where "MID_DEFEND = 4"
definition POST_ATTACK :: int where "POST_ATTACK = 5"
definition POST_DEFEND :: int where "POST_DEFEND = 6"
definition REWARDS :: int where "REWARDS = 7"
definition MODIFY_MAX_HP :: int where "MODIFY_MAX_HP = 8"
definition TURN_START :: int where "TURN_START = 9"

definition COMMON :: int where "COMMON = 0"
definition UNCOMMON :: int where "UNCOMMON = 1"
definition RARE :: int where "RARE = 2"
definition LEGENDARY :: int where "LEGENDARY = 3"

section \<open>Modifier classes and the registry\<close>

text \<open>
  A class object with the class attributes the engine reads.  An attribute that the
  class \<open>Modifier\<close> only annotates (\<open>ID\<close>, \<open>TYPE\<close>, \<open>SCALING\<close>, \<open>NAME\<close>,
  \<open>DAMAGE_TYPE\<close>) is absent until a class sets it.  \<open>cname\<close> is the name of the
  class statement and stands for the identity of the class object.  \<open>DESCRIPTION\<close> is
  not modelled: no modelled operation reads it.  The attribute \<open>TYPE\<close> is the
  field \<open>MOD_TYPE\<close>.
\<close>

record cls =
  cname :: string
  ID :: "int option"
  RARITY :: "int option"
  MOD_TYPE :: "int option"
  OP_ORDERING :: int
  MAX_STRENGTH :: int
  MIN_STRENGTH :: int
  SCALING :: "number option"
  NAME :: "string option"
  DAMAGE_TYPE :: "string option"

text \<open>The module globals \<open>_LIST\<close>, \<open>_RARITY_INDEX\<close> and \<open>_NAME_LUT\<close>.\<close>

record registry =
  LIST :: "cls list"
  RARITY_INDEX :: "(int \<times> cls list) list"
  NAME_LUT :: "(string \<times> cls) list"

definition empty_registry :: registry where
  "empty_registry = \<lparr>LIST = [], RARITY_INDEX = [(0, []), (1, []), (2, []), (3, [])],
     NAME_LUT = []\<rparr>"

text \<open>The class \<open>Modifier\<close> itself.\<close>

definition Modifier_cls :: cls where
  "Modifier_cls = \<lparr>cname = ''Modifier'', ID = None, RARITY = None, MOD_TYPE = None,
     OP_ORDERING = 0, MAX_STRENGTH = 0, MIN_STRENGTH = 1, SCALING = None, NAME = None,
     DAMAGE_TYPE = None\<rparr>"

text \<open>\<open>Modifier.__init_subclass__(cls, rarity)\<close>.\<close>

definition Modifier_init_subclass ::
  "cls \<Rightarrow> int option \<Rightarrow> registry \<Rightarrow> py_error + cls \<times> registry" where
  "Modifier_init_subclass c rarity reg = (case rarity of
     None \<Rightarrow> Inr (c, reg)
   | Some r \<Rightarrow>
      (let modifier_id = int (length (LIST reg));
           c' = c\<lparr>ID := Some modifier_id, RARITY := Some r\<rparr>
       in case map_of (RARITY_INDEX reg) r of
            None \<Rightarrow> Inl KeyError
          | Some bucket \<Rightarrow>
             (case NAME c' of
                None \<Rightarrow> Inl AttributeError
              | Some n \<Rightarrow> Inr (c', reg\<lparr>LIST := LIST reg @ [c'],
                    RARITY_INDEX := AList.update r (bucket @ [c']) (RARITY_INDEX reg),
                    NAME_LUT := AList.update n c' (NAME_LUT reg)\<rparr>))))"

text \<open>
  The three \<open>__init_subclass__\<close> of the generic damage classes.  The registry holds the
  class object itself, so the attributes the source assigns after the call of
  \<open>super().__init_subclass__\<close> (\<open>DAMAGE_TYPE\<close>, \<open>TYPE\<close>) are seen through the
  registry too; the model assigns them to the class before that call.
\<close>

definition GenericDamageMult_init_subclass ::
  "cls \<Rightarrow> string option \<Rightarrow> int option \<Rightarrow> registry \<Rightarrow> py_error + cls \<times> registry" where
  "GenericDamageMult_init_subclass c dmg_type mod_type reg = (case dmg_type of
     None \<Rightarrow> Inl ValueError
   | Some d \<Rightarrow> Modifier_init_subclass
       (c\<lparr>NAME := Some (capitalize d @ '' '' @
              (if mod_type = Some PRE_ATTACK then ''Affinity'' else ''Resistant'')),
          DAMAGE_TYPE := Some d, MOD_TYPE := mod_type\<rparr>) (Some COMMON) reg)"

definition GenericDamageBonus_init_subclass ::
  "cls \<Rightarrow> string option \<Rightarrow> int option \<Rightarrow> registry \<Rightarrow> py_error + cls \<times> registry" where
  "GenericDamageBonus_init_subclass c dmg_type mod_type reg = (case dmg_type of
     None \<Rightarrow> Inl ValueError
   | Some d \<Rightarrow> Modifier_init_subclass
       (c\<lparr>NAME := Some (capitalize d @ '' '' @
              (if mod_type = Some PRE_ATTACK then ''Optimized'' else ''shielded'')),
          DAMAGE_TYPE := Some d, MOD_TYPE := mod_type\<rparr>) (Some COMMON) reg)"

definition GenericDamageAbsorb_init_subclass ::
  "cls \<Rightarrow> string option \<Rightarrow> registry \<Rightarrow> py_error + cls \<times> registry" where
  "GenericDamageAbsorb_init_subclass c dmg_type reg = (case dmg_type of
     None \<Rightarrow> Inl ValueError
   | Some d \<Rightarrow> Modifier_init_subclass
       (c\<lparr>NAME := Some (capitalize d @ '' Absorption''), DAMAGE_TYPE := Some d\<rparr>)
       (Some UNCOMMON) reg)"

text \<open>
  A class statement \<open>class N(B, rarity=.., dmg_type=.., mod_type=..): body\<close>: its base,
  its keyword arguments and the class attributes its body assigns.
\<close>

datatype base = Modifier | GenericDamageMult | GenericDamageBonus | GenericDamageAbsorb

datatype attr =
  A_TYPE int | A_OP_ORDERING int | A_MAX_STRENGTH int | A_MIN_STRENGTH int
  | A_SCALING number | A_NAME string

record class_stmt =
  cs_name :: string
  cs_base :: base
  cs_rarity :: "int option"
  cs_dmg_type :: "string option"
  cs_mod_type :: "int option"
  cs_body :: "attr list"

fun set_attr :: "cls \<Rightarrow> attr \<Rightarrow> cls" where
  "set_attr c (A_TYPE t) = c\<lparr>MOD_TYPE := Some t\<rparr>"
| "set_attr c (A_OP_ORDERING k) = c\<lparr>OP_ORDERING := k\<rparr>"
| "set_attr c (A_MAX_STRENGTH k) = c\<lparr>MAX_STRENGTH := k\<rparr>"
| "set_attr c (A_MIN_STRENGTH k) = c\<lparr>MIN_STRENGTH := k\<rparr>"
| "set_attr c (A_SCALING s) = c\<lparr>SCALING := Some s\<rparr>"
| "set_attr c (A_NAME n) = c\<lparr>NAME := Some n\<rparr>"

text \<open>The new class object: the attributes of the base, then those of the body.\<close>

definition class_body :: "cls \<Rightarrow> string \<Rightarrow> attr list \<Rightarrow> cls" where
  "class_body b n body = foldl set_attr (b\<lparr>cname := n\<rparr>) body"

definition GenericDamageMult_cls :: cls where
  "GenericDamageMult_cls = class_body Modifier_cls ''_GenericDamageMult''
     [A_MAX_STRENGTH 100, A_MIN_STRENGTH 1, A_SCALING (PInt 2)]"

definition GenericDamageBonus_cls :: cls where
  "GenericDamageBonus_cls = class_body Modifier_cls ''_GenericDamageBonus''
     [A_MAX_STRENGTH 0, A_MIN_STRENGTH 1, A_SCALING (PInt 2), A_OP_ORDERING 1]"

definition GenericDamageAbsorb_cls :: cls where
  "GenericDamageAbsorb_cls = class_body Modifier_cls ''_GenericDamageAbsorb''
     [A_TYPE MID_DEFEND, A_MAX_STRENGTH 100, A_MIN_STRENGTH 1, A_SCALING (PInt 2)]"

fun base_cls :: "base \<Rightarrow> cls" where
  "base_cls Modifier = Modifier_cls"
| "base_cls GenericDamageMult = GenericDamageMult_cls"
| "base_cls GenericDamageBonus = GenericDamageBonus_cls"
| "base_cls GenericDamageAbsorb = GenericDamageAbsorb_cls"

text \<open>
  Executing a class statement.  \<open>Modifier.__init_subclass__\<close> accepts only \<open>rarity\<close>;
  the generic classes take \<open>dmg_type\<close> (and \<open>mod_type\<close>) and swallow every other
  keyword in \<open>**kwargs\<close>.
\<close>

definition define_class :: "class_stmt \<Rightarrow> registry \<Rightarrow> py_error + cls \<times> registry" where
  "define_class st reg =
     (let c = class_body (base_cls (cs_base st)) (cs_name st) (cs_body st) in
      case cs_base st of
        Modifier \<Rightarrow>
          if cs_dmg_type st \<noteq> None \<or> cs_mod_type st \<noteq> None then Inl TypeError
          else Modifier_init_subclass c (cs_rarity st) reg
      | GenericDamageMult \<Rightarrow>
          GenericDamageMult_init_subclass c (cs_dmg_type st) (cs_mod_type st) reg
      | GenericDamageBonus \<Rightarrow>
          GenericDamageBonus_init_subclass c (cs_dmg_type st) (cs_mod_type st) reg
      | GenericDamageAbsorb \<Rightarrow>
          GenericDamageAbsorb_init_subclass c (cs_dmg_type st) reg)"

text \<open>Executing class statements in order; the first exception aborts the import.\<close>

fun define_classes :: "class_stmt list \<Rightarrow> registry \<Rightarrow> py_error + registry" where
  "define_classes [] reg = Inr reg"
| "define_classes (st # sts) reg = (case define_class st reg of
     Inl e \<Rightarrow> Inl e | Inr (c, reg') \<Rightarrow> define_classes sts reg')"

text \<open>
  The class statements of the module in the order the import executes them: a nested
  class is created while the body of its outer class runs, hence before the outer class.
\<close>

definition module_classes :: "class_stmt list" where
  "module_classes = [
     \<lparr>cs_name = ''_GenericDamageMult'', cs_base = Modifier, cs_rarity = None,
      cs_dmg_type = None, cs_mod_type = None,
      cs_body = [A_MAX_STRENGTH 100, A_MIN_STRENGTH 1, A_SCALING (PInt 2)]\<rparr>,
     \<lparr>cs_name = ''_GenericDamageBonus'', cs_base = Modifier, cs_rarity = None,
      cs_dmg_type = None, cs_mod_type = None,
      cs_body = [A_MAX_STRENGTH 0, A_MIN_STRENGTH 1, A_SCALING (PInt 2), A_OP_ORDERING 1]\<rparr>,
     \<lparr>cs_name = ''_GenericDamageAbsorb'', cs_base = Modifier, cs_rarity = None,
      cs_dmg_type = None, cs_mod_type = None,
      cs_body = [A_TYPE MID_DEFEND, A_MAX_STRENGTH 100, A_MIN_STRENGTH 1, A_SCALING (PInt 2)]\<rparr>,
     \<lparr>cs_name = ''SlashAttackMult'', cs_base = GenericDamageMult, cs_rarity = None,
      cs_dmg_type = Some ''slash'', cs_mod_type = Some PRE_ATTACK,
      cs_body = []\<rparr>,
     \<lparr>cs_name = ''PierceAttackMult'', cs_base = GenericDamageMult, cs_rarity = None,
      cs_dmg_type = Some ''pierce'', cs_mod_type = Some PRE_ATTACK,
      cs_body = []\<rparr>,
     \<lparr>cs_name = ''BluntAttackAttackMult'', cs_base = GenericDamageMult, cs_rarity = None,
      cs_dmg_type = Some ''blunt'', cs_mod_type = Some PRE_ATTACK,
      cs_body = []\<rparr>,
     \<lparr>cs_name = ''OccultAttackMult'', cs_base = GenericDamageMult, cs_rarity = None,
      cs_dmg_type = Some ''occult'', cs_mod_type = Some PRE_ATTACK,
      cs_body = []\<rparr>,
     \<lparr>cs_name = ''FireAttackMult'', cs_base = GenericDamageMult, cs_rarity = None,
      cs_dmg_type = Some ''fire'', cs_mod_type = Some PRE_ATTACK,
      cs_body = []\<rparr>,
     \<lparr>cs_name = ''AcidAttackMult'', cs_base = GenericDamageMult, cs_rarity = None,
      cs_dmg_type = Some ''acid'', cs_mod_type = Some PRE_ATTACK,
      cs_body = []\<rparr>,
     \<lparr>cs_name = ''FreezeAttackMult'', cs_base = GenericDamageMult, cs_rarity = None,
      cs_dmg_type = Some ''freeze'', cs_mod_type = Some PRE_ATTACK,
      cs_body = []\<rparr>,
     \<lparr>cs_name = ''ElectricAttackMult'', cs_base = GenericDamageMult, cs_rarity = None,
      cs_dmg_type = Some ''electric'', cs_mod_type = Some PRE_ATTACK,
      cs_body = []\<rparr>,
     \<lparr>cs_name = ''SlashDefendMult'', cs_base = GenericDamageMult, cs_rarity = None,
      cs_dmg_type = Some ''slash'', cs_mod_type = Some PRE_DEFEND,
      cs_body = []\<rparr>,
     \<lparr>cs_name = ''PierceDefendMult'', cs_base = GenericDamageMult, cs_rarity = None,
      cs_dmg_type = Some ''pierce'', cs_mod_type = Some PRE_DEFEND,
      cs_body = []\<rparr>,
     \<lparr>cs_name = ''BluntDefendAttackMult'', cs_base = GenericDamageMult, cs_rarity = None,
      cs_dmg_type = Some ''blunt'', cs_mod_type = Some PRE_DEFEND,
      cs_body = []\<rparr>,
     \<lparr>cs_name = ''OccultDefendMult'', cs_base = GenericDamageMult, cs_rarity = None,
      cs_dmg_type = Some ''occult'', cs_mod_type = Some PRE_DEFEND,
      cs_body = []\<rparr>,
     \<lparr>cs_name = ''FireDefendMult'', cs_base = GenericDamageMult, cs_rarity = None,
      cs_dmg_type = Some ''fire'', cs_mod_type = Some PRE_DEFEND,
      cs_body = []\<rparr>,
     \<lparr>cs_name = ''AcidDefendMult'', cs_base = GenericDamageMult, cs_rarity = None,
      cs_dmg_type = Some ''acid'', cs_mod_type = Some PRE_DEFEND,
      cs_body = []\<rparr>,
     \<lparr>cs_name = ''FreezeDefendMult'', cs_base = GenericDamageMult, cs_rarity = None,
      cs_dmg_type = Some ''freeze'', cs_mod_type = Some PRE_DEFEND,
      cs_body = []\<rparr>,
     \<lparr>cs_name = ''ElectricDefendMult'', cs_base = GenericDamageMult, cs_rarity = None,
      cs_dmg_type = Some ''electric'', cs_mod_type = Some PRE_DEFEND,
      cs_body = []\<rparr>,
     \<lparr>cs_name = ''SlashAttackBonus'', cs_base = GenericDamageBonus, cs_rarity = None,
      cs_dmg_type = Some ''slash'', cs_mod_type = Some PRE_ATTACK,
      cs_body = []\<rparr>,
     \<lparr>cs_name = ''PierceAttackBonus'', cs_base = GenericDamageBonus, cs_rarity = None,
      cs_dmg_type = Some ''pierce'', cs_mod_type = Some PRE_ATTACK,
      cs_body = []\<rparr>,
     \<lparr>cs_name = ''BluntAttackAttackBonus'', cs_base = GenericDamageBonus, cs_rarity = None,
      cs_dmg_type = Some ''blunt'', cs_mod_type = Some PRE_ATTACK,
      cs_body = []\<rparr>,
     \<lparr>cs_name = ''OccultAttackBonus'', cs_base = GenericDamageBonus, cs_rarity = None,
      cs_dmg_type = Some ''occult'', cs_mod_type = Some PRE_ATTACK,
      cs_body = []\<rparr>,
     \<lparr>cs_name = ''FireAttackBonus'', cs_base = GenericDamageBonus, cs_rarity = None,
      cs_dmg_type = Some ''fire'', cs_mod_type = Some PRE_ATTACK,
      cs_body = []\<rparr>,
     \<lparr>cs_name = ''AcidAttackBonus'', cs_base = GenericDamageBonus, cs_rarity = None,
      cs_dmg_type = Some ''acid'', cs_mod_type = Some PRE_ATTACK,
      cs_body = []\<rparr>,
     \<lparr>cs_name = ''FreezeAttackBonus'', cs_base = GenericDamageBonus, cs_rarity = None,
      cs_dmg_type = Some ''freeze'', cs_mod_type = Some PRE_ATTACK,
      cs_body = []\<rparr>,
     \<lparr>cs_name = ''ElectricAttackBonus'', cs_base = GenericDamageBonus, cs_rarity = None,
      cs_dmg_type = Some ''electric'', cs_mod_type = Some PRE_ATTACK,
      cs_body = []\<rparr>,
     \<lparr>cs_name = ''SlashDefendBonus'', cs_base = GenericDamageBonus, cs_rarity = None,
      cs_dmg_type = Some ''slash'', cs_mod_type = Some PRE_DEFEND,
      cs_body = []\<rparr>,
     \<lparr>cs_name = ''PierceDefendBonus'', cs_base = GenericDamageBonus, cs_rarity = None,
      cs_dmg_type = Some ''pierce'', cs_mod_type = Some PRE_DEFEND,
      cs_body = []\<rparr>,
     \<lparr>cs_name = ''BluntDefendAttackBonus'', cs_base = GenericDamageBonus, cs_rarity = None,
      cs_dmg_type = Some ''blunt'', cs_mod_type = Some PRE_DEFEND,
      cs_body = []\<rparr>,
     \<lparr>cs_name = ''OccultDefendBonus'', cs_base = GenericDamageBonus, cs_rarity = None,
      cs_dmg_type = Some ''occult'', cs_mod_type = Some PRE_DEFEND,
      cs_body = []\<rparr>,
     \<lparr>cs_name = ''FireDefendBonus'', cs_base = GenericDamageBonus, cs_rarity = None,
      cs_dmg_type = Some ''fire'', cs_mod_type = Some PRE_DEFEND,
      cs_body = []\<rparr>,
     \<lparr>cs_name = ''AcidDefendBonus'', cs_base = GenericDamageBonus, cs_rarity = None,
      cs_dmg_type = Some ''acid'', cs_mod_type = Some PRE_DEFEND,
      cs_body = []\<rparr>,
     \<lparr>cs_name = ''FreezeDefendBonus'', cs_base = GenericDamageBonus, cs_rarity = None,
      cs_dmg_type = Some ''freeze'', cs_mod_type = Some PRE_DEFEND,
      cs_body = []\<rparr>,
     \<lparr>cs_name = ''ElectricDefendBonus'', cs_base = GenericDamageBonus, cs_rarity = None,
      cs_dmg_type = Some ''electric'', cs_mod_type = Some PRE_DEFEND,
      cs_body = []\<rparr>,
     \<lparr>cs_name = ''FirstHitBonus'', cs_base = Modifier, cs_rarity = Some UNCOMMON,
      cs_dmg_type = None, cs_mod_type = None,
      cs_body = [A_TYPE PRE_ATTACK, A_OP_ORDERING 1, A_MAX_STRENGTH 0, A_SCALING (float_literal (1 / 2)), A_NAME ''Sneak attack'']\<rparr>,
     \<lparr>cs_name = ''KillAtPercentHealth'', cs_base = Modifier, cs_rarity = Some RARE,
      cs_dmg_type = None, cs_mod_type = None,
      cs_body = [A_TYPE PRE_ATTACK, A_MAX_STRENGTH 50, A_SCALING (PInt 5), A_NAME ''Obliteration'']\<rparr>,
     \<lparr>cs_name = ''Berserk'', cs_base = Modifier, cs_rarity = Some UNCOMMON,
      cs_dmg_type = None, cs_mod_type = None,
      cs_body = [A_TYPE PRE_ATTACK, A_MAX_STRENGTH 60, A_SCALING (PInt 2), A_NAME ''Berserk'']\<rparr>,
     \<lparr>cs_name = ''ChaosBrand'', cs_base = Modifier, cs_rarity = Some UNCOMMON,
      cs_dmg_type = None, cs_mod_type = None,
      cs_body = [A_TYPE PRE_ATTACK, A_MAX_STRENGTH 200, A_MIN_STRENGTH 100, A_SCALING (float_literal (1 / 2)), A_NAME ''Chaos Brand'']\<rparr>,
     \<lparr>cs_name = ''LuckyHit'', cs_base = Modifier, cs_rarity = Some UNCOMMON,
      cs_dmg_type = None, cs_mod_type = None,
      cs_body = [A_TYPE PRE_ATTACK, A_MAX_STRENGTH 500, A_MIN_STRENGTH 100, A_SCALING (float_literal (3 / 5)), A_NAME ''Lucky Hit'']\<rparr>,
     \<lparr>cs_name = ''PoisonTipped.PoisonProc'', cs_base = Modifier, cs_rarity = None,
      cs_dmg_type = None, cs_mod_type = None,
      cs_body = [A_TYPE TURN_START]\<rparr>,
     \<lparr>cs_name = ''PoisonTipped'', cs_base = Modifier, cs_rarity = Some RARE,
      cs_dmg_type = None, cs_mod_type = None,
      cs_body = [A_TYPE PRE_ATTACK, A_MAX_STRENGTH 10, A_SCALING (PInt 10), A_NAME ''Poison Tipped'']\<rparr>,
     \<lparr>cs_name = ''EldritchShield.TankHits'', cs_base = Modifier, cs_rarity = None,
      cs_dmg_type = None, cs_mod_type = None,
      cs_body = [A_TYPE MID_DEFEND]\<rparr>,
     \<lparr>cs_name = ''EldritchShield'', cs_base = Modifier, cs_rarity = Some RARE,
      cs_dmg_type = None, cs_mod_type = None,
      cs_body = [A_TYPE COMBAT_START, A_MAX_STRENGTH 3, A_SCALING (PInt 30), A_NAME ''Eldritch Shield'']\<rparr>,
     \<lparr>cs_name = ''Vampiric'', cs_base = Modifier, cs_rarity = Some LEGENDARY,
      cs_dmg_type = None, cs_mod_type = None,
      cs_body = [A_TYPE POST_ATTACK, A_MAX_STRENGTH 10, A_MIN_STRENGTH 1, A_SCALING (PInt 20), A_NAME ''Vampiric'']\<rparr>,
     \<lparr>cs_name = ''UnyieldingWill.FreeRevive'', cs_base = Modifier, cs_rarity = None,
      cs_dmg_type = None, cs_mod_type = None,
      cs_body = [A_TYPE POST_DEFEND]\<rparr>,
     \<lparr>cs_name = ''UnyieldingWill'', cs_base = Modifier, cs_rarity = Some LEGENDARY,
      cs_dmg_type = None, cs_mod_type = None,
      cs_body = [A_TYPE COMBAT_START, A_MAX_STRENGTH 2, A_MIN_STRENGTH 1, A_SCALING (PInt 80), A_NAME ''Unyielding Will'']\<rparr>,
     \<lparr>cs_name = ''BloodThirst'', cs_base = Modifier, cs_rarity = Some RARE,
      cs_dmg_type = None, cs_mod_type = None,
      cs_body = [A_TYPE COMBAT_START, A_MAX_STRENGTH 20, A_SCALING (PInt 5), A_NAME ''Blood Thirst'']\<rparr>,
     \<lparr>cs_name = ''Blessed'', cs_base = Modifier, cs_rarity = Some UNCOMMON,
      cs_dmg_type = None, cs_mod_type = None,
      cs_body = [A_TYPE MODIFY_MAX_HP, A_MAX_STRENGTH 50, A_SCALING (PInt 2), A_NAME ''Blessed'']\<rparr>,
     \<lparr>cs_name = ''Bashing'', cs_base = Modifier, cs_rarity = Some LEGENDARY,
      cs_dmg_type = None, cs_mod_type = None,
      cs_body = [A_TYPE PRE_ATTACK, A_MAX_STRENGTH 50, A_SCALING (PInt 2), A_NAME ''Bashing'']\<rparr>,
     \<lparr>cs_name = ''Thorns'', cs_base = Modifier, cs_rarity = Some UNCOMMON,
      cs_dmg_type = None, cs_mod_type = None,
      cs_body = [A_TYPE PRE_DEFEND, A_MAX_STRENGTH 0, A_MIN_STRENGTH 1, A_SCALING (PInt 5), A_NAME ''Thorns'']\<rparr>,
     \<lparr>cs_name = ''FireAbsorb'', cs_base = GenericDamageAbsorb, cs_rarity = None,
      cs_dmg_type = Some ''fire'', cs_mod_type = None,
      cs_body = []\<rparr>,
     \<lparr>cs_name = ''AcidAbsorb'', cs_base = GenericDamageAbsorb, cs_rarity = None,
      cs_dmg_type = Some ''acid'', cs_mod_type = None,
      cs_body = []\<rparr>,
     \<lparr>cs_name = ''FreezeAbsorb'', cs_base = GenericDamageAbsorb, cs_rarity = None,
      cs_dmg_type = Some ''freeze'', cs_mod_type = None,
      cs_body = []\<rparr>,
     \<lparr>cs_name = ''ElectricAbsorb'', cs_base = GenericDamageAbsorb, cs_rarity = None,
      cs_dmg_type = Some ''electric'', cs_mod_type = None,
      cs_body = []\<rparr>,
     \<lparr>cs_name = ''RouletteAttack'', cs_base = Modifier, cs_rarity = Some RARE,
      cs_dmg_type = None, cs_mod_type = None,
      cs_body = [A_TYPE PRE_ATTACK, A_MAX_STRENGTH 0, A_MIN_STRENGTH 1, A_SCALING (float_literal (7 / 2)), A_NAME ''Roulette Attack'']\<rparr>,
     \<lparr>cs_name = ''IdiotGodBlessing.FreeRevive'', cs_base = Modifier, cs_rarity = None,
      cs_dmg_type = None, cs_mod_type = None,
      cs_body = [A_TYPE POST_DEFEND]\<rparr>,
     \<lparr>cs_name = ''IdiotGodBlessing'', cs_base = Modifier, cs_rarity = Some LEGENDARY,
      cs_dmg_type = None, cs_mod_type = None,
      cs_body = [A_TYPE COMBAT_START, A_MAX_STRENGTH 100, A_MIN_STRENGTH 10, A_SCALING (PInt 5), A_NAME ''Idiot God Blessing'']\<rparr>,
     \<lparr>cs_name = ''Brutal'', cs_base = Modifier, cs_rarity = Some UNCOMMON,
      cs_dmg_type = None, cs_mod_type = None,
      cs_body = [A_TYPE POST_ATTACK, A_MAX_STRENGTH 0, A_MIN_STRENGTH 1, A_SCALING (PInt 3), A_NAME ''Brutality'']\<rparr>,
     \<lparr>cs_name = ''Ferocity'', cs_base = Modifier, cs_rarity = Some RARE,
      cs_dmg_type = None, cs_mod_type = None,
      cs_body = [A_TYPE PRE_ATTACK, A_MAX_STRENGTH 10, A_MIN_STRENGTH 1, A_SCALING (PInt 10), A_NAME ''Ferocity'']\<rparr>,
     \<lparr>cs_name = ''LambEmbrace'', cs_base = Modifier, cs_rarity = Some RARE,
      cs_dmg_type = None, cs_mod_type = None,
      cs_body = [A_TYPE TURN_START, A_MAX_STRENGTH 0, A_MIN_STRENGTH 1, A_SCALING (PInt 3), A_NAME ''Lamb's Embrace'']\<rparr>,
     \<lparr>cs_name = ''EldritchSynergy'', cs_base = Modifier, cs_rarity = Some LEGENDARY,
      cs_dmg_type = None, cs_mod_type = None,
      cs_body = [A_TYPE PRE_ATTACK, A_MAX_STRENGTH 0, A_MIN_STRENGTH 1, A_SCALING (PInt 4), A_NAME ''Eldritch Synergy'']\<rparr>,
     \<lparr>cs_name = ''Dread'', cs_base = Modifier, cs_rarity = Some UNCOMMON,
      cs_dmg_type = None, cs_mod_type = None,
      cs_body = [A_TYPE TURN_START, A_MAX_STRENGTH 0, A_MIN_STRENGTH 1, A_SCALING (float_literal (3 / 2)), A_NAME ''Dread Aura'']\<rparr>,
     \<lparr>cs_name = ''Akimbo'', cs_base = Modifier, cs_rarity = Some LEGENDARY,
      cs_dmg_type = None, cs_mod_type = None,
      cs_body = [A_TYPE PRE_ATTACK, A_MAX_STRENGTH 50, A_SCALING (PInt 2), A_NAME ''Akimbo'']\<rparr>,
     \<lparr>cs_name = ''OccultAbsorb'', cs_base = GenericDamageAbsorb, cs_rarity = None,
      cs_dmg_type = Some ''occult'', cs_mod_type = None,
      cs_body = []\<rparr>,
     \<lparr>cs_name = ''PlayerDamageMult'', cs_base = Modifier, cs_rarity = Some RARE,
      cs_dmg_type = None, cs_mod_type = None,
      cs_body = [A_TYPE PRE_ATTACK, A_MAX_STRENGTH 100, A_MIN_STRENGTH 1, A_SCALING (PInt 2), A_NAME ''Hearth-breaker'']\<rparr>,
     \<lparr>cs_name = ''AdditionalHelper.Helper'', cs_base = Modifier, cs_rarity = None,
      cs_dmg_type = None, cs_mod_type = None,
      cs_body = [A_TYPE TURN_START]\<rparr>,
     \<lparr>cs_name = ''AdditionalHelper'', cs_base = Modifier, cs_rarity = Some LEGENDARY,
      cs_dmg_type = None, cs_mod_type = None,
      cs_body = [A_TYPE COMBAT_START, A_SCALING (float_literal (3 / 10)), A_NAME ''Shade Helper'']\<rparr>]"

text \<open>Importing the module: the globals start empty and the class statements run.\<close>

definition load_module :: "py_error + registry" where
  "load_module = define_classes module_classes empty_registry"

text \<open>A class statement inside the body of another class has a dotted name.\<close>

definition nested :: "class_stmt \<Rightarrow> bool" where
  "nested st \<longleftrightarrow> CHR ''.'' \<in> set (cs_name st)"

section \<open>Modifier instances\<close>

record modifier =
  cls_of :: cls
  strength :: int
  duration :: int

text \<open>\<open>Modifier.__init__(self, strength, duration)\<close>, and \<open>cls(strength)\<close> with the default duration.\<close>

definition Modifier_init :: "cls \<Rightarrow> int \<Rightarrow> int \<Rightarrow> modifier" where
  "Modifier_init c s d = \<lparr>cls_of = c, strength = s, duration = d\<rparr>"

definition new_modifier :: "cls \<Rightarrow> int \<Rightarrow> modifier" where
  "new_modifier c s = Modifier_init c s (- 1)"

text \<open>\<open>Modifier.__eq__\<close> on two modifier instances: a class without \<open>ID\<close> raises.\<close>

definition Modifier_eq :: "modifier \<Rightarrow> modifier \<Rightarrow> py_error + bool" where
  "Modifier_eq a b = (case (ID (cls_of a), ID (cls_of b)) of
     (Some i, Some j) \<Rightarrow> Inr (i = j \<and> strength a = strength b)
   | _ \<Rightarrow> Inl AttributeError)"

definition get_fstrength :: "modifier \<Rightarrow> py_error + rat" where
  "get_fstrength self = int_truediv (strength self) 100"

definition bind_err :: "'e + 'a \<Rightarrow> ('a \<Rightarrow> 'e + 'b) \<Rightarrow> 'e + 'b" where
  "bind_err m f = (case m of Inl e \<Rightarrow> Inl e | Inr x \<Rightarrow> f x)"

text \<open>\<open>Modifier.generate(cls, level)\<close>.\<close>

definition generate :: "cls \<Rightarrow> int \<Rightarrow> py_error + modifier" where
  "generate c level =
     (case SCALING c of
        None \<Rightarrow> Inl AttributeError
      | Some s \<Rightarrow>
         bind_err (py_truediv level s) (\<lambda>q.
         bind_err (py_int q) (\<lambda>k.
           let strength0 = MIN_STRENGTH c + k;
               strength1 = (if MAX_STRENGTH c \<noteq> 0 \<and> strength0 > MAX_STRENGTH c
                            then MAX_STRENGTH c else strength0)
           in Inr (new_modifier c strength1))))"

text \<open>
  \<open>get_modifier\<close> and \<open>get_modifier_from_name\<close>.  They read the module globals; the
  registry is threaded through to show what they leave of it.
\<close>

definition get_modifier :: "int \<Rightarrow> int \<Rightarrow> registry \<Rightarrow> (py_error + modifier) \<times> registry" where
  "get_modifier modifier_id s reg =
     (bind_err (list_index (LIST reg) modifier_id) (\<lambda>c. Inr (new_modifier c s)), reg)"

definition get_modifier_from_name ::
  "string \<Rightarrow> int \<Rightarrow> registry \<Rightarrow> (py_error + modifier) \<times> registry" where
  "get_modifier_from_name modifier_name s reg =
     (case map_of (NAME_LUT reg) modifier_name of
        None \<Rightarrow> (Inl KeyError, reg)
      | Some c \<Rightarrow> (Inr (new_modifier c s), reg))"

definition get_modifiers_by_rarity :: "int \<Rightarrow> registry \<Rightarrow> cls list" where
  "get_modifiers_by_rarity rarity reg = (case map_of (RARITY_INDEX reg) rarity of
     None \<Rightarrow> [] | Some l \<Rightarrow> l)"

definition get_all_modifiers :: "registry \<Rightarrow> cls list" where
  "get_all_modifiers reg = LIST reg"

section \<open>The objects of a combat\<close>

text \<open>
  Damage values and actors are mutable objects that the context refers to; the world
  holds them in two stores, addressed by position, with the combat log.
\<close>

type_synonym Damage = "(string \<times> int) list"

record actor =
  actor_name :: string
  hp :: int
  max_hp :: int

record world =
  damages :: "Damage list"
  actors :: "actor list"
  combat_log :: "string list"

datatype pyval = VNone | VInt int | VDamage nat | VActor nat | VContainer

text \<open>\<open>ModifierContext\<close>: the dictionary and its \<open>get(key, default_value)\<close>.\<close>

type_synonym ModifierContext = "(string \<times> pyval) list"

definition ctx_get :: "ModifierContext \<Rightarrow> string \<Rightarrow> pyval \<Rightarrow> pyval" where
  "ctx_get d key default_value = (case map_of d key of None \<Rightarrow> default_value | Some v \<Rightarrow> v)"

text \<open>A method call or attribute access on anything but the expected object raises.\<close>

definition deref_damage :: "world \<Rightarrow> pyval \<Rightarrow> py_error + nat \<times> Damage" where
  "deref_damage w v = (case v of
     VDamage a \<Rightarrow> if a < length (damages w) then Inr (a, damages w ! a) else Inl AttributeError
   | _ \<Rightarrow> Inl AttributeError)"

definition deref_actor :: "world \<Rightarrow> pyval \<Rightarrow> py_error + nat \<times> actor" where
  "deref_actor w v = (case v of
     VActor a \<Rightarrow> if a < length (actors w) then Inr (a, actors w ! a) else Inl AttributeError
   | _ \<Rightarrow> Inl AttributeError)"

definition alloc_damage :: "Damage \<Rightarrow> world \<Rightarrow> pyval \<times> world" where
  "alloc_damage d w = (VDamage (length (damages w)), w\<lparr>damages := damages w @ [d]\<rparr>)"

subsection \<open>The Damage value type\<close>

text \<open>
  Modelled from the spec: the class \<open>Damage\<close> of \<open>pilgram.combat_classes\<close>, which is
  not among the sources.  A Damage value is a record of per-category amounts, given
  here by its \<open>__dict__\<close> as the source reads it; the categories are those the spec
  lists.  Its operations return a new value and leave their arguments alone:
  per-category scaling (the amounts stay ints, as the source reads them, so the scaled
  amount goes through \<open>int\<close>), per-category addition, the sum of two values, and the
  empty value.
\<close>

definition damage_keys :: "string list" where
  "damage_keys = [''slash'', ''pierce'', ''blunt'', ''occult'', ''fire'', ''acid'',
     ''freeze'', ''electric'']"

definition get_empty :: Damage where
  "get_empty = map (\<lambda>k. (k, 0)) damage_keys"

definition scale_single_value :: "string \<Rightarrow> rat \<Rightarrow> Damage \<Rightarrow> py_error + Damage" where
  "scale_single_value key scaling_factor d = (case map_of d key of
     None \<Rightarrow> Inl KeyError
   | Some v \<Rightarrow>
       bind_err (int_mul_float v scaling_factor) (\<lambda>p.
       bind_err (py_int p) (\<lambda>v'. Inr (AList.update key v' d))))"

definition add_single_value :: "string \<Rightarrow> int \<Rightarrow> Damage \<Rightarrow> py_error + Damage" where
  "add_single_value key amount d = (case map_of d key of
     None \<Rightarrow> Inl KeyError
   | Some v \<Rightarrow> Inr (AList.update key (v + amount) d))"

definition damage_add :: "Damage \<Rightarrow> Damage \<Rightarrow> py_error + Damage" where
  "damage_add a b =
     (if \<forall>k \<in> set damage_keys. map_of a k \<noteq> None \<and> map_of b k \<noteq> None
      then Inr (map (\<lambda>k. (k, the (map_of a k) + the (map_of b k))) damage_keys)
      else Inl AttributeError)"

subsection \<open>The combat-actor capability and the log sink\<close>

text \<open>
  Modelled from the spec: the class \<open>CombatActor\<close> of \<open>pilgram.combat_classes\<close>, which
  is not among the sources.  An actor reports and changes its hit points, with a flag
  that allows healing past the maximum, reports its maximum, its display name and a
  formatted HP string, and is dead when its HP is 0.
\<close>

definition modify_hp :: "int \<Rightarrow> bool \<Rightarrow> actor \<Rightarrow> actor" where
  "modify_hp amount overheal a =
     (if \<not> overheal \<and> hp a + amount > max_hp a then a\<lparr>hp := max_hp a\<rparr>
      else a\<lparr>hp := hp a + amount\<rparr>)"

definition get_max_hp :: "actor \<Rightarrow> int" where
  "get_max_hp a = max_hp a"

definition is_dead :: "actor \<Rightarrow> bool" where
  "is_dead a \<longleftrightarrow> hp a = 0"

definition get_name :: "actor \<Rightarrow> string" where
  "get_name a = actor_name a"

definition get_hp_string :: "actor \<Rightarrow> string" where
  "get_hp_string a = ''HP: '' @ str_int (hp a) @ ''/'' @ str_int (max_hp a)"

text \<open>
  \<open>Modifier.write_to_log(context, text)\<close>.  Modelled from the spec: the log sink under
  the key \<open>context\<close>, whose \<open>write_to_log\<close> records the text.
\<close>

definition write_to_log :: "ModifierContext \<Rightarrow> string \<Rightarrow> world \<Rightarrow> py_error + world" where
  "write_to_log context text w = (case ctx_get context ''context'' VNone of
     VNone \<Rightarrow> Inr w
   | VContainer \<Rightarrow> Inr (w\<lparr>combat_log := combat_log w @ [text]\<rparr>)
   | _ \<Rightarrow> Inl AttributeError)"

section \<open>Behaviours and \<open>apply\<close>\<close>

text \<open>
  A behaviour (the method \<open>function\<close> of a class) takes the instance, the context and
  the world; it raises, or returns its value with the instance and the world as it
  leaves them.
\<close>

type_synonym result = "py_error + pyval \<times> modifier \<times> world"

type_synonym behaviour = "modifier \<Rightarrow> ModifierContext \<Rightarrow> world \<Rightarrow> result"

text \<open>\<open>Modifier.function\<close>, which every concrete class overrides.\<close>

definition Modifier_function :: behaviour where
  "Modifier_function self context w = Inl NotImplementedError"

text \<open>
  \<open>Modifier.apply(self, context)\<close>; the first argument is the method that
  \<open>self.function\<close> resolves to.
\<close>

definition Modifier_apply :: "behaviour \<Rightarrow> modifier \<Rightarrow> ModifierContext \<Rightarrow> world \<Rightarrow> result" where
  "Modifier_apply func self context w =
     (if duration self > 0 then func (self\<lparr>duration := duration self - 1\<rparr>) context w
      else if duration self = 0 then Inr (VNone, self, w)
      else func self context w)"

text \<open>\<open>_GenericDamageMult.function\<close>.\<close>

definition GenericDamageMult_function :: behaviour where
  "GenericDamageMult_function self context w =
     bind_err (deref_damage w (ctx_get context ''damage'' VNone)) (\<lambda>(a, damage).
     (case DAMAGE_TYPE (cls_of self) of
        None \<Rightarrow> Inl AttributeError
      | Some key \<Rightarrow>
          bind_err (int_truediv (100 + strength self) 100) (\<lambda>factor.
          bind_err (scale_single_value key factor damage) (\<lambda>d'.
            (case alloc_damage d' w of (v, w') \<Rightarrow> Inr (v, self, w'))))))"

text \<open>\<open>_GenericDamageBonus.function\<close>.\<close>

definition GenericDamageBonus_function :: behaviour where
  "GenericDamageBonus_function self context w =
     bind_err (deref_damage w (ctx_get context ''damage'' VNone)) (\<lambda>(a, damage).
     (case DAMAGE_TYPE (cls_of self) of
        None \<Rightarrow> Inl AttributeError
      | Some key \<Rightarrow>
          bind_err (add_single_value key (strength self) damage) (\<lambda>d'.
            (case alloc_damage d' w of (v, w') \<Rightarrow> Inr (v, self, w')))))"

text \<open>\<open>_GenericDamageAbsorb.function\<close>.\<close>

definition GenericDamageAbsorb_function :: behaviour where
  "GenericDamageAbsorb_function self context w =
     bind_err (deref_damage w (ctx_get context ''damage'' VNone)) (\<lambda>(a, damage).
     let defender = ctx_get context ''target'' VNone in
     (case DAMAGE_TYPE (cls_of self) of
        None \<Rightarrow> Inl AttributeError
      | Some key \<Rightarrow>
         (case map_of damage key of
            None \<Rightarrow> Inl KeyError
          | Some element_damage \<Rightarrow>
              if element_damage > 0 then
                bind_err (get_fstrength self) (\<lambda>f.
                bind_err (int_mul_float element_damage f) (\<lambda>p.
                bind_err (py_int p) (\<lambda>hp0.
                let hp' = (if hp0 = 0 then 1 else hp0) in
                bind_err (deref_actor w defender) (\<lambda>(i, d).
                let d' = modify_hp hp' True d;
                    w' = w\<lparr>actors := (actors w)[i := d']\<rparr>
                in bind_err (write_to_log context
                     (get_name d' @ '' heals '' @ str_int hp' @ '' HP from '' @ key
                        @ '' damage. ('' @ get_hp_string d' @ '')'') w')
                     (\<lambda>w''. Inr (VNone, self, w''))))))
              else Inr (VNone, self, w))))"

text \<open>
  \<open>RouletteAttack.function\<close>; \<open>r\<close> is the number the random generator draws for
  \<open>random.choice\<close>, which selects the key at that position.
\<close>

definition RouletteAttack_function :: "nat \<Rightarrow> behaviour" where
  "RouletteAttack_function r self context w =
     bind_err (deref_damage w (ctx_get context ''damage'' VNone)) (\<lambda>(a, damage).
     let keys = map fst damage in
     if keys = [] then Inl IndexError
     else
       let key = keys ! (r mod length keys) in
       (case alloc_damage get_empty w of (damage_modifier, w1) \<Rightarrow>
         let w2 = w1\<lparr>damages := (damages w1)[a := AList.update key (strength self) damage]\<rparr> in
         bind_err (deref_damage w2 (VDamage a)) (\<lambda>(_, x).
         bind_err (deref_damage w2 damage_modifier) (\<lambda>(_, y).
         bind_err (damage_add x y) (\<lambda>s.
           (case alloc_damage s w2 of (v, w3) \<Rightarrow> Inr (v, self, w3)))))))"

text \<open>\<open>IdiotGodBlessing.FreeRevive.function\<close>.\<close>

definition IdiotGodBlessing_FreeRevive_function :: behaviour where
  "IdiotGodBlessing_FreeRevive_function self context w =
     bind_err (deref_actor w (ctx_get context ''other'' VNone)) (\<lambda>(i, entity).
     if is_dead entity then
       bind_err (get_fstrength self) (\<lambda>f.
       bind_err (int_mul_float (get_max_hp entity) f) (\<lambda>p.
       bind_err (py_int p) (\<lambda>amount.
       let entity' = modify_hp amount False entity;
           w' = w\<lparr>actors := (actors w)[i := entity']\<rparr>
       in bind_err (write_to_log context
            (''The Idiot God blessing revives '' @ get_name entity' @ ''! (''
               @ get_hp_string entity' @ '')'') w')
            (\<lambda>w''. Inr (VNone, self, w'')))))
     else Inr (VNone, self\<lparr>duration := duration self + 1\<rparr>, w))"

text \<open>\<open>UnyieldingWill.FreeRevive.function\<close>.\<close>

definition UnyieldingWill_FreeRevive_function :: behaviour where
  "UnyieldingWill_FreeRevive_function self context w =
     bind_err (deref_actor w (ctx_get context ''other'' VNone)) (\<lambda>(i, defender).
     if hp defender = 0 then
       bind_err (write_to_log context (get_name defender @ '' still stands.'') w) (\<lambda>w'.
       bind_err (int_truediv (get_max_hp defender) 2) (\<lambda>h.
       bind_err (py_int (Fin h)) (\<lambda>amount.
         Inr (VNone, self, w'\<lparr>actors := (actors w')[i := modify_hp amount False defender]\<rparr>))))
     else Inr (VNone, self\<lparr>duration := duration self + 1\<rparr>, w))"

subsection \<open>Dispatch\<close>

text \<open>
  Modelled from the spec: the dispatch of the combat orchestrator, which is not among
  the sources.  The modifiers of one phase run in the order of their ordering key, ties
  in insertion order; a Damage value that a behaviour returns is folded back into the
  context for the next modifier.  \<open>fn\<close> gives the method \<open>function\<close> of a modifier.
\<close>

definition ordered_modifiers :: "modifier list \<Rightarrow> modifier list" where
  "ordered_modifiers ms = sort_key (\<lambda>m. OP_ORDERING (cls_of m)) ms"

fun run_modifiers ::
  "(modifier \<Rightarrow> behaviour) \<Rightarrow> modifier list \<Rightarrow> ModifierContext \<Rightarrow> world
     \<Rightarrow> py_error + pyval \<times> modifier list \<times> world" where
  "run_modifiers fn [] context w = Inr (ctx_get context ''damage'' VNone, [], w)"
| "run_modifiers fn (m # ms) context w =
     bind_err (Modifier_apply (fn m) m context w) (\<lambda>(v, m', w').
       let context' = (case v of VDamage a \<Rightarrow> AList.update ''damage'' v context | _ \<Rightarrow> context)
       in bind_err (run_modifiers fn ms context' w') (\<lambda>(v', ms', w''). Inr (v', m' # ms', w'')))"

definition dispatch ::
  "(modifier \<Rightarrow> behaviour) \<Rightarrow> modifier list \<Rightarrow> ModifierContext \<Rightarrow> world
     \<Rightarrow> py_error + pyval \<times> modifier list \<times> world" where
  "dispatch fn ms context w = run_modifiers fn (ordered_modifiers ms) context w"

section \<open>Example objects\<close>

text \<open>
  A small import (one class of each generic family), a world with one Damage value and
  one actor, and a context over them, for evaluating the definitions.
\<close>

definition example_classes :: "class_stmt list" where
  "example_classes = [
     \<lparr>cs_name = ''SlashAttackMult'', cs_base = GenericDamageMult, cs_rarity = None,
      cs_dmg_type = Some ''slash'', cs_mod_type = Some PRE_ATTACK, cs_body = []\<rparr>,
     \<lparr>cs_name = ''SlashAttackBonus'', cs_base = GenericDamageBonus, cs_rarity = None,
      cs_dmg_type = Some ''slash'', cs_mod_type = Some PRE_ATTACK, cs_body = []\<rparr>,
     \<lparr>cs_name = ''FireAbsorb'', cs_base = GenericDamageAbsorb, cs_rarity = None,
      cs_dmg_type = Some ''fire'', cs_mod_type = None, cs_body = []\<rparr>]"

definition example_registry :: registry where
  "example_registry = (case define_classes example_classes empty_registry of
     Inr reg \<Rightarrow> reg | Inl e \<Rightarrow> empty_registry)"

definition SlashAttackMult :: cls where
  "SlashAttackMult = LIST example_registry ! 0"

definition SlashAttackBonus :: cls where
  "SlashAttackBonus = LIST example_registry ! 1"

definition FireAbsorb :: cls where
  "FireAbsorb = LIST example_registry ! 2"

definition example_damage :: "int \<Rightarrow> int \<Rightarrow> Damage" where
  "example_damage s f = AList.update ''fire'' f (AList.update ''slash'' s get_empty)"

definition example_actor :: "int \<Rightarrow> actor" where
  "example_actor h = \<lparr>actor_name = ''Hero'', hp = h, max_hp = 100\<rparr>"

definition example_world :: "Damage \<Rightarrow> actor \<Rightarrow> world" where
  "example_world d a = \<lparr>damages = [d], actors = [a], combat_log = []\<rparr>"

definition example_context :: ModifierContext where
  "example_context = [(''damage'', VDamage 0), (''target'', VActor 0), (''other'', VActor 0),
     (''context'', VContainer)]"

text \<open>
  An import with variant definitions a careful author would not write: a zero scaling
  divisor, and one display name used twice.
\<close>

definition malformed_classes :: "class_stmt list" where
  "malformed_classes = [
     \<lparr>cs_name = ''ZeroScaling'', cs_base = Modifier, cs_rarity = Some COMMON,
      cs_dmg_type = None, cs_mod_type = None,
      cs_body = [A_TYPE PRE_ATTACK, A_SCALING (PInt 0), A_NAME ''Broken'']\<rparr>,
     \<lparr>cs_name = ''TwinA'', cs_base = Modifier, cs_rarity = Some RARE,
      cs_dmg_type = None, cs_mod_type = None,
      cs_body = [A_TYPE PRE_ATTACK, A_SCALING (PInt 2), A_NAME ''Twin'']\<rparr>,
     \<lparr>cs_name = ''TwinB'', cs_base = Modifier, cs_rarity = Some RARE,
      cs_dmg_type = None, cs_mod_type = None,
      cs_body = [A_TYPE PRE_DEFEND, A_SCALING (PInt 3), A_NAME ''Twin'']\<rparr>]"

definition malformed_registry :: registry where
  "malformed_registry = (case define_classes malformed_classes empty_registry of
     Inr reg \<Rightarrow> reg | Inl e \<Rightarrow> empty_registry)"

section \<open>The loaded catalog and the invariant of the registry\<close>

text \<open>The registry as the import of the module leaves it.\<close>

definition catalog :: registry where
  "catalog = (case load_module of Inr reg \<Rightarrow> reg | Inl e \<Rightarrow> empty_registry)"

text \<open>
  What every registration keeps: ids are positions in \<open>_LIST\<close>; the rarity index has
  the four tiers, and the bucket of a tier lists the registered classes of that tier in
  order; a registered class has a tier and a name; and the name index gives, for a
  name, the class registered last under it.
\<close>

definition registry_inv :: "registry \<Rightarrow> bool" where
  "registry_inv reg \<longleftrightarrow>
     map ID (LIST reg) = map (\<lambda>i. Some (int i)) [0..<length (LIST reg)] \<and>
     map fst (RARITY_INDEX reg) = [0, 1, 2, 3] \<and>
     (\<forall>r \<in> {0, 1, 2, 3}. map_of (RARITY_INDEX reg) r
         = Some (filter (\<lambda>c. RARITY c = Some r) (LIST reg))) \<and>
     (\<forall>c \<in> set (LIST reg). (\<exists>r \<in> {0, 1, 2, 3}. RARITY c = Some r) \<and> NAME c \<noteq> None) \<and>
     (\<forall>n. map_of (NAME_LUT reg) n
         = map_of (rev (map (\<lambda>c. (the (NAME c), c)) (LIST reg))) n)"

text \<open>A registered class, written by its attributes in the order of the record.\<close>

definition cls_entry ::
  "string \<Rightarrow> int \<Rightarrow> int \<Rightarrow> int \<Rightarrow> int \<Rightarrow> int \<Rightarrow> int \<Rightarrow> number \<Rightarrow> string
     \<Rightarrow> string option \<Rightarrow> cls" where
  "cls_entry cn i r t ord mx mn sc n dt =
     \<lparr>cname = cn, ID = Some i, RARITY = Some r, MOD_TYPE = Some t, OP_ORDERING = ord,
      MAX_STRENGTH = mx, MIN_STRENGTH = mn, SCALING = Some sc, NAME = Some n,
      DAMAGE_TYPE = dt\<rparr>"

text \<open>
  For the proofs: the class object that a class statement hands to
  \<open>Modifier.__init_subclass__\<close> with the rarity it passes, and the classes that a list
  of statements makes of \<open>_LIST\<close>.
\<close>

definition prepared :: "class_stmt \<Rightarrow> py_error + cls \<times> int option" where
  "prepared st =
     (let c = class_body (base_cls (cs_base st)) (cs_name st) (cs_body st) in
      case cs_base st of
        Modifier \<Rightarrow>
          if cs_dmg_type st \<noteq> None \<or> cs_mod_type st \<noteq> None then Inl TypeError
          else Inr (c, cs_rarity st)
      | GenericDamageMult \<Rightarrow> (case cs_dmg_type st of
            None \<Rightarrow> Inl ValueError
          | Some d \<Rightarrow> Inr (c\<lparr>NAME := Some (capitalize d @ '' '' @
                (if cs_mod_type st = Some PRE_ATTACK then ''Affinity'' else ''Resistant'')),
              DAMAGE_TYPE := Some d, MOD_TYPE := cs_mod_type st\<rparr>, Some COMMON))
      | GenericDamageBonus \<Rightarrow> (case cs_dmg_type st of
            None \<Rightarrow> Inl ValueError
          | Some d \<Rightarrow> Inr (c\<lparr>NAME := Some (capitalize d @ '' '' @
                (if cs_mod_type st = Some PRE_ATTACK then ''Optimized'' else ''shielded'')),
              DAMAGE_TYPE := Some d, MOD_TYPE := cs_mod_type st\<rparr>, Some COMMON))
      | GenericDamageAbsorb \<Rightarrow> (case cs_dmg_type st of
            None \<Rightarrow> Inl ValueError
          | Some d \<Rightarrow> Inr (c\<lparr>NAME := Some (capitalize d @ '' Absorption''),
              DAMAGE_TYPE := Some d\<rparr>, Some UNCOMMON)))"

definition register_step :: "cls list \<Rightarrow> class_stmt \<Rightarrow> cls list" where
  "register_step acc st = (case prepared st of
     Inr (c, Some r) \<Rightarrow> acc @ [c\<lparr>ID := Some (int (length acc)), RARITY := Some r\<rparr>]
   | _ \<Rightarrow> acc)"

definition registered :: "class_stmt list \<Rightarrow> cls list \<Rightarrow> cls list" where
  "registered sts acc = foldl register_step acc sts"

definition registrable :: "class_stmt \<Rightarrow> bool" where
  "registrable st = (case prepared st of
     Inl e \<Rightarrow> False
   | Inr (c, None) \<Rightarrow> True
   | Inr (c, Some r) \<Rightarrow> r \<in> {0, 1, 2, 3} \<and> NAME c \<noteq> None)"

section \<open>Evaluation\<close>

lemmas registry_defs = module_classes_def empty_registry_def define_class_def class_body_def
  Modifier_init_subclass_def GenericDamageMult_init_subclass_def
  GenericDamageBonus_init_subclass_def GenericDamageAbsorb_init_subclass_def
  Modifier_cls_def GenericDamageMult_cls_def GenericDamageBonus_cls_def
  GenericDamageAbsorb_cls_def upper_char_def lower_char_def lower_letters_def
  upper_letters_def float_literal_def load_module_def
  COMMON_def UNCOMMON_def RARE_def LEGENDARY_def PRE_ATTACK_def PRE_DEFEND_def
  MID_DEFEND_def COMBAT_START_def MID_ATTACK_def POST_ATTACK_def POST_DEFEND_def
  REWARDS_def MODIFY_MAX_HP_def TURN_START_def Let_def

lemma example_registry_eq:
  "define_classes example_classes empty_registry = Inr example_registry"
  by (simp add: example_registry_def example_classes_def registry_defs)

lemma SlashAttackMult_eq:
  "SlashAttackMult = \<lparr>cname = ''SlashAttackMult'', ID = Some 0, RARITY = Some 0,
     MOD_TYPE = Some 1, OP_ORDERING = 0, MAX_STRENGTH = 100, MIN_STRENGTH = 1,
     SCALING = Some (PInt 2), NAME = Some ''Slash Affinity'', DAMAGE_TYPE = Some ''slash''\<rparr>"
  by (simp add: SlashAttackMult_def example_registry_def example_classes_def registry_defs)

lemma SlashAttackBonus_eq:
  "SlashAttackBonus = \<lparr>cname = ''SlashAttackBonus'', ID = Some 1, RARITY = Some 0,
     MOD_TYPE = Some 1, OP_ORDERING = 1, MAX_STRENGTH = 0, MIN_STRENGTH = 1,
     SCALING = Some (PInt 2), NAME = Some ''Slash Optimized'', DAMAGE_TYPE = Some ''slash''\<rparr>"
  by (simp add: SlashAttackBonus_def example_registry_def example_classes_def registry_defs)

lemma FireAbsorb_eq:
  "FireAbsorb = \<lparr>cname = ''FireAbsorb'', ID = Some 2, RARITY = Some 1,
     MOD_TYPE = Some 4, OP_ORDERING = 0, MAX_STRENGTH = 100, MIN_STRENGTH = 1,
     SCALING = Some (PInt 2), NAME = Some ''Fire Absorption'', DAMAGE_TYPE = Some ''fire''\<rparr>"
  by (simp add: FireAbsorb_def example_registry_def example_classes_def registry_defs)

lemmas example_defs = SlashAttackMult_eq SlashAttackBonus_eq FireAbsorb_eq
  example_damage_def example_actor_def example_world_def example_context_def
  get_empty_def damage_keys_def Modifier_init_def new_modifier_def
  GenericDamageBonus_function_def GenericDamageMult_function_def
  GenericDamageAbsorb_function_def bind_err_def deref_damage_def deref_actor_def
  ctx_get_def alloc_damage_def add_single_value_def write_to_log_def

section \<open>The duration countdown of \<open>apply\<close>\<close>

lemma apply_expired:
  "duration self = 0 \<Longrightarrow> Modifier_apply func self context w = Inr (VNone, self, w)"
  by (simp add: Modifier_apply_def)

lemma apply_counting:
  "0 < duration self \<Longrightarrow>
     Modifier_apply func self context w = func (self\<lparr>duration := duration self - 1\<rparr>) context w"
  by (simp add: Modifier_apply_def)

lemma apply_permanent:
  "duration self < 0 \<Longrightarrow> Modifier_apply func self context w = func self context w"
  by (simp add: Modifier_apply_def)

text \<open>
  Claim C1.  For every instance and every behaviour, \<open>apply\<close> follows the countdown:
  with duration 0 it returns \<open>None\<close> at once and leaves the instance and the world as
  they are; with a positive duration it runs the behaviour on the instance with the
  duration already decremented, also when the decrement reached 0; with duration
  \<open>-1\<close> it runs the behaviour on the instance unchanged.
\<close>

theorem apply_duration_countdown:
  "(duration self = 0 \<longrightarrow> Modifier_apply func self context w = Inr (VNone, self, w)) \<and>
   (0 < duration self \<longrightarrow>
      Modifier_apply func self context w
        = func (self\<lparr>duration := duration self - 1\<rparr>) context w) \<and>
   (duration self = - 1 \<longrightarrow> Modifier_apply func self context w = func self context w)"
  by (simp add: apply_expired apply_counting apply_permanent)

theorem apply_duration_countdown_witness:
  "Modifier_apply GenericDamageBonus_function (Modifier_init SlashAttackBonus 3 0)
       example_context (example_world (example_damage 10 0) (example_actor 40))
     = Inr (VNone, Modifier_init SlashAttackBonus 3 0,
         example_world (example_damage 10 0) (example_actor 40)) \<and>
   Modifier_apply GenericDamageBonus_function (Modifier_init SlashAttackBonus 3 5)
       example_context (example_world (example_damage 10 0) (example_actor 40))
     = Inr (VDamage 1, Modifier_init SlashAttackBonus 3 4,
         \<lparr>damages = [example_damage 10 0, example_damage 13 0],
          actors = [example_actor 40], combat_log = []\<rparr>) \<and>
   Modifier_apply GenericDamageBonus_function (Modifier_init SlashAttackBonus 3 1)
       example_context (example_world (example_damage 10 0) (example_actor 40))
     = Inr (VDamage 1, Modifier_init SlashAttackBonus 3 0,
         \<lparr>damages = [example_damage 10 0, example_damage 13 0],
          actors = [example_actor 40], combat_log = []\<rparr>) \<and>
   Modifier_apply GenericDamageBonus_function (Modifier_init SlashAttackBonus 3 (- 1))
       example_context (example_world (example_damage 10 0) (example_actor 40))
     = Inr (VDamage 1, Modifier_init SlashAttackBonus 3 (- 1),
         \<lparr>damages = [example_damage 10 0, example_damage 13 0],
          actors = [example_actor 40], combat_log = []\<rparr>)"
  using apply_duration_countdown [of "Modifier_init SlashAttackBonus 3 0"
      GenericDamageBonus_function example_context
      "example_world (example_damage 10 0) (example_actor 40)"]
    apply_duration_countdown [of "Modifier_init SlashAttackBonus 3 5"
      GenericDamageBonus_function example_context
      "example_world (example_damage 10 0) (example_actor 40)"]
    apply_duration_countdown [of "Modifier_init SlashAttackBonus 3 1"
      GenericDamageBonus_function example_context
      "example_world (example_damage 10 0) (example_actor 40)"]
    apply_duration_countdown [of "Modifier_init SlashAttackBonus 3 (- 1)"
      GenericDamageBonus_function example_context
      "example_world (example_damage 10 0) (example_actor 40)"]
  by (simp add: example_defs)

section \<open>Registration\<close>

lemma registry_inv_empty: "registry_inv empty_registry"
  by (simp add: registry_inv_def empty_registry_def)

lemma Modifier_init_subclass_None [simp]:
  "Modifier_init_subclass c None reg = Inr (c, reg)"
  by (simp add: Modifier_init_subclass_def)

lemma Modifier_init_subclass_Some:
  assumes "Modifier_init_subclass c (Some r) reg = Inr (c', reg')"
  shows "\<exists>bucket n. map_of (RARITY_INDEX reg) r = Some bucket \<and> NAME c = Some n \<and>
           c' = c\<lparr>ID := Some (int (length (LIST reg))), RARITY := Some r\<rparr> \<and>
           reg' = reg\<lparr>LIST := LIST reg @ [c'],
                     RARITY_INDEX := AList.update r (bucket @ [c']) (RARITY_INDEX reg),
                     NAME_LUT := AList.update n c' (NAME_LUT reg)\<rparr>"
  using assms
  by (auto simp: Modifier_init_subclass_def Let_def split: option.splits)

lemma Modifier_init_subclass_accepts:
  assumes "map_of (RARITY_INDEX reg) r = Some bucket" and "NAME c = Some n"
  shows "Modifier_init_subclass c (Some r) reg =
           Inr (c\<lparr>ID := Some (int (length (LIST reg))), RARITY := Some r\<rparr>,
                reg\<lparr>LIST := LIST reg @ [c\<lparr>ID := Some (int (length (LIST reg))), RARITY := Some r\<rparr>],
                  RARITY_INDEX := AList.update r
                     (bucket @ [c\<lparr>ID := Some (int (length (LIST reg))), RARITY := Some r\<rparr>])
                     (RARITY_INDEX reg),
                  NAME_LUT := AList.update n
                     (c\<lparr>ID := Some (int (length (LIST reg))), RARITY := Some r\<rparr>)
                     (NAME_LUT reg)\<rparr>)"
  using assms by (simp add: Modifier_init_subclass_def Let_def)

lemma map_of_keys_0123:
  assumes "map fst al = [0, 1, 2, 3::int]" and "map_of al r = Some b"
  shows "r \<in> {0, 1, 2, 3}"
proof -
  from assms(2) have "r \<in> fst ` set al" by (rule map_of_SomeD [THEN imageI, of _ _ _ fst, simplified])
  then have "r \<in> set (map fst al)" by simp
  with assms(1) show ?thesis by simp
qed

lemma Modifier_init_subclass_inv:
  assumes inv: "registry_inv reg"
    and reg: "Modifier_init_subclass c rarity reg = Inr (c', reg')"
  shows "registry_inv reg'"
proof (cases rarity)
  case None
  with reg inv show ?thesis by simp
next
  case (Some r)
  with reg obtain bucket n where
    b: "map_of (RARITY_INDEX reg) r = Some bucket" and n: "NAME c = Some n" and
    c': "c' = c\<lparr>ID := Some (int (length (LIST reg))), RARITY := Some r\<rparr>" and
    reg': "reg' = reg\<lparr>LIST := LIST reg @ [c'],
                     RARITY_INDEX := AList.update r (bucket @ [c']) (RARITY_INDEX reg),
                     NAME_LUT := AList.update n c' (NAME_LUT reg)\<rparr>"
    using Modifier_init_subclass_Some by blast
  from inv have keys: "map fst (RARITY_INDEX reg) = [0, 1, 2, 3]"
    by (simp add: registry_inv_def)
  from keys b have r: "r \<in> {0, 1, 2, 3}" by (rule map_of_keys_0123)
  from inv r have "map_of (RARITY_INDEX reg) r
      = Some (filter (\<lambda>c. RARITY c = Some r) (LIST reg))"
    unfolding registry_inv_def by blast
  with b have bucket: "bucket = filter (\<lambda>c. RARITY c = Some r) (LIST reg)" by simp
  have 1: "map ID (LIST reg') = map (\<lambda>i. Some (int i)) [0..<length (LIST reg')]"
    using inv by (simp add: reg' c' registry_inv_def)
  have 2: "map fst (RARITY_INDEX reg') = [0, 1, 2, 3]"
    using keys r by (auto simp: reg' update_keys)
  have 3: "\<forall>q \<in> {0, 1, 2, 3}. map_of (RARITY_INDEX reg') q
        = Some (filter (\<lambda>c. RARITY c = Some q) (LIST reg'))"
  proof
    fix q :: int assume q: "q \<in> {0, 1, 2, 3}"
    with inv have old: "map_of (RARITY_INDEX reg) q
        = Some (filter (\<lambda>c. RARITY c = Some q) (LIST reg))"
      unfolding registry_inv_def by blast
    show "map_of (RARITY_INDEX reg') q = Some (filter (\<lambda>c. RARITY c = Some q) (LIST reg'))"
      using old bucket by (simp add: reg' update_conv' c')
  qed
  have 4: "\<forall>x \<in> set (LIST reg'). (\<exists>q \<in> {0, 1, 2, 3}. RARITY x = Some q) \<and> NAME x \<noteq> None"
    using inv r n by (auto simp: reg' c' registry_inv_def)
  have 5: "\<forall>m. map_of (NAME_LUT reg') m
        = map_of (rev (map (\<lambda>c. (the (NAME c), c)) (LIST reg'))) m"
    using inv n by (simp add: reg' c' registry_inv_def update_conv')
  from 1 2 3 4 5 show ?thesis unfolding registry_inv_def by blast
qed

lemma define_class_inv:
  assumes "registry_inv reg" and "define_class st reg = Inr (c', reg')"
  shows "registry_inv reg'"
  using assms
  by (auto simp: define_class_def GenericDamageMult_init_subclass_def
        GenericDamageBonus_init_subclass_def GenericDamageAbsorb_init_subclass_def Let_def
      split: base.splits if_splits option.splits
      intro: Modifier_init_subclass_inv)

lemma define_classes_inv:
  "registry_inv reg \<Longrightarrow> define_classes sts reg = Inr reg' \<Longrightarrow> registry_inv reg'"
proof (induction sts arbitrary: reg)
  case Nil
  then show ?case by simp
next
  case (Cons st sts)
  from Cons.prems(2) obtain c r1 where
    st: "define_class st reg = Inr (c, r1)" and rest: "define_classes sts r1 = Inr reg'"
    by (auto split: sum.splits)
  from Cons.prems(1) st have "registry_inv r1" by (rule define_class_inv)
  then show ?case using rest by (rule Cons.IH)
qed

lemma import_inv:
  "define_classes sts empty_registry = Inr reg \<Longrightarrow> registry_inv reg"
  using registry_inv_empty by (rule define_classes_inv)

subsection \<open>What the invariant gives the lookups\<close>

lemma inv_ID_nth:
  assumes "registry_inv reg" and "i < length (LIST reg)"
  shows "ID (LIST reg ! i) = Some (int i)"
proof -
  from assms(1) have "map ID (LIST reg) ! i = map (\<lambda>i. Some (int i)) [0..<length (LIST reg)] ! i"
    by (simp add: registry_inv_def)
  with assms(2) show ?thesis by simp
qed

lemma inv_name_unknown:
  assumes "registry_inv reg" and "\<forall>c \<in> set (LIST reg). NAME c \<noteq> Some n"
  shows "map_of (NAME_LUT reg) n = None"
proof -
  from assms(1) have names: "\<forall>c \<in> set (LIST reg). NAME c \<noteq> None"
    by (simp add: registry_inv_def)
  have "n \<notin> fst ` set (rev (map (\<lambda>c. (the (NAME c), c)) (LIST reg)))"
  proof
    assume "n \<in> fst ` set (rev (map (\<lambda>c. (the (NAME c), c)) (LIST reg)))"
    then obtain c where c: "c \<in> set (LIST reg)" and "n = the (NAME c)" by auto
    with names have "NAME c = Some n" by auto
    with assms(2) c show False by blast
  qed
  then have "map_of (rev (map (\<lambda>c. (the (NAME c), c)) (LIST reg))) n = None"
    by (simp add: map_of_eq_None_iff)
  with assms(1) show ?thesis by (simp add: registry_inv_def)
qed

lemma inv_name_known:
  assumes inv: "registry_inv reg" and d: "distinct (map NAME (LIST reg))"
    and c: "c \<in> set (LIST reg)" and n: "NAME c = Some n"
  shows "map_of (NAME_LUT reg) n = Some c"
proof -
  let ?al = "rev (map (\<lambda>c. (the (NAME c), c)) (LIST reg))"
  from inv have names: "\<forall>c \<in> set (LIST reg). NAME c \<noteq> None"
    by (simp add: registry_inv_def)
  have "inj_on (\<lambda>c. the (NAME c)) (set (LIST reg))"
  proof (rule inj_onI)
    fix x y assume x: "x \<in> set (LIST reg)" and y: "y \<in> set (LIST reg)"
      and e: "the (NAME x) = the (NAME y)"
    from names x y e have "NAME x = NAME y" by (metis option.collapse)
    with d x y show "x = y" by (meson distinct_map inj_onD)
  qed
  moreover from d have "distinct (LIST reg)" by (simp add: distinct_map)
  ultimately have "distinct (map (\<lambda>c. the (NAME c)) (LIST reg))"
    by (simp add: distinct_map)
  then have "distinct (map fst ?al)" by (simp add: rev_map [symmetric] comp_def)
  moreover from c n have "(n, c) \<in> set ?al" by force
  ultimately have "map_of ?al n = Some c" by (rule map_of_is_SomeI)
  with inv show ?thesis by (simp add: registry_inv_def)
qed

lemma list_index_in_range:
  "0 \<le> i \<Longrightarrow> i < int (length xs) \<Longrightarrow> list_index xs i = Inr (xs ! nat i)"
  by (simp add: list_index_def)

lemma list_index_out_of_range:
  "int (length xs) \<le> i \<or> i < - int (length xs) \<Longrightarrow> list_index xs i = Inl IndexError"
  by (auto simp: list_index_def)

lemma list_index_negative:
  "i < 0 \<Longrightarrow> - int (length xs) \<le> i \<Longrightarrow> list_index xs i = Inr (xs ! nat (int (length xs) + i))"
  by (simp add: list_index_def)

subsection \<open>The classes an import registers\<close>

lemma define_class_prepared:
  "define_class st reg = (case prepared st of
     Inl e \<Rightarrow> Inl e | Inr (c, r) \<Rightarrow> Modifier_init_subclass c r reg)"
  by (cases "cs_base st"; cases "cs_dmg_type st")
     (simp_all add: define_class_def prepared_def Let_def GenericDamageMult_init_subclass_def
        GenericDamageBonus_init_subclass_def GenericDamageAbsorb_init_subclass_def)

lemma inv_bucket:
  assumes "registry_inv reg" and "r \<in> {0, 1, 2, 3}"
  shows "\<exists>bucket. map_of (RARITY_INDEX reg) r = Some bucket"
  using assms unfolding registry_inv_def by blast

lemma define_classes_registered:
  assumes "registry_inv reg" and "\<forall>st \<in> set sts. registrable st"
  shows "\<exists>reg'. define_classes sts reg = Inr reg' \<and> LIST reg' = registered sts (LIST reg)"
  using assms
proof (induction sts arbitrary: reg)
  case Nil
  then show ?case by (simp add: registered_def)
next
  case (Cons st sts)
  from Cons.prems(2) have st: "registrable st" and sts: "\<forall>st \<in> set sts. registrable st"
    by simp_all
  from st obtain c r where p: "prepared st = Inr (c, r)"
    by (auto simp: registrable_def split: sum.splits)
  show ?case
  proof (cases r)
    case None
    with p have "define_class st reg = Inr (c, reg)" by (simp add: define_class_prepared)
    moreover from Cons.IH [OF Cons.prems(1) sts] obtain reg' where
      "define_classes sts reg = Inr reg'" "LIST reg' = registered sts (LIST reg)" by blast
    ultimately show ?thesis using p None by (simp add: registered_def register_step_def)
  next
    case (Some q)
    with st p have q: "q \<in> {0, 1, 2, 3}" and "NAME c \<noteq> None"
      by (simp_all add: registrable_def)
    then obtain n where n: "NAME c = Some n" by blast
    from inv_bucket [OF Cons.prems(1) q] obtain bucket where
      b: "map_of (RARITY_INDEX reg) q = Some bucket" by blast
    let ?c = "c\<lparr>ID := Some (int (length (LIST reg))), RARITY := Some q\<rparr>"
    let ?r1 = "reg\<lparr>LIST := LIST reg @ [?c],
        RARITY_INDEX := AList.update q (bucket @ [?c]) (RARITY_INDEX reg),
        NAME_LUT := AList.update n ?c (NAME_LUT reg)\<rparr>"
    have m: "Modifier_init_subclass c (Some q) reg = Inr (?c, ?r1)"
      using b n by (rule Modifier_init_subclass_accepts)
    with Cons.prems(1) have "registry_inv ?r1" by (rule Modifier_init_subclass_inv)
    from Cons.IH [OF this sts] obtain reg' where
      "define_classes sts ?r1 = Inr reg'" "LIST reg' = registered sts (LIST ?r1)" by blast
    then show ?thesis using p Some m
      by (simp add: define_class_prepared registered_def register_step_def)
  qed
qed

subsection \<open>The catalog\<close>

lemma capitalize_damage_types:
  "capitalize ''slash'' = ''Slash''" "capitalize ''pierce'' = ''Pierce''"
  "capitalize ''blunt'' = ''Blunt''" "capitalize ''occult'' = ''Occult''"
  "capitalize ''fire'' = ''Fire''" "capitalize ''acid'' = ''Acid''"
  "capitalize ''freeze'' = ''Freeze''" "capitalize ''electric'' = ''Electric''"
  by (simp_all add: upper_char_def lower_char_def lower_letters_def upper_letters_def)

lemmas prepared_defs = registrable_def registered_def register_step_def prepared_def module_classes_def class_body_def
  Modifier_cls_def GenericDamageMult_cls_def GenericDamageBonus_cls_def
  GenericDamageAbsorb_cls_def capitalize_damage_types COMMON_def UNCOMMON_def RARE_def LEGENDARY_def PRE_ATTACK_def
  PRE_DEFEND_def MID_DEFEND_def COMBAT_START_def MID_ATTACK_def POST_ATTACK_def
  POST_DEFEND_def REWARDS_def MODIFY_MAX_HP_def TURN_START_def Let_def

lemma module_classes_registrable: "\<forall>st \<in> set module_classes. registrable st"
  by (simp add: prepared_defs del: capitalize.simps)

lemma load_module_registered:
  "\<exists>reg. load_module = Inr reg \<and> LIST reg = registered module_classes []"
  using define_classes_registered [OF registry_inv_empty module_classes_registrable]
  by (simp add: load_module_def empty_registry_def)

lemma load_module_catalog: "load_module = Inr catalog"
proof -
  from load_module_registered obtain reg where reg: "load_module = Inr reg" by blast
  have "catalog = reg" unfolding catalog_def reg by simp
  then show ?thesis unfolding reg by simp
qed

lemma catalog_inv: "registry_inv catalog"
  using load_module_catalog unfolding load_module_def by (rule import_inv)

lemma catalog_registered: "LIST catalog = registered module_classes []"
proof -
  from load_module_registered obtain reg where
    reg: "load_module = Inr reg" and l: "LIST reg = registered module_classes []" by blast
  from reg have "Inr catalog = (Inr reg :: py_error + registry)"
    unfolding load_module_catalog .
  with l show ?thesis by simp
qed

text \<open>The classes the import registers, in the order of their ids.\<close>

lemma catalog_LIST:
  "LIST catalog = [
     cls_entry ''SlashAttackMult'' 0 0 1 0 100 1 (PInt 2) ''Slash Affinity'' (Some ''slash''),
     cls_entry ''PierceAttackMult'' 1 0 1 0 100 1 (PInt 2) ''Pierce Affinity'' (Some ''pierce''),
     cls_entry ''BluntAttackAttackMult'' 2 0 1 0 100 1 (PInt 2) ''Blunt Affinity'' (Some ''blunt''),
     cls_entry ''OccultAttackMult'' 3 0 1 0 100 1 (PInt 2) ''Occult Affinity'' (Some ''occult''),
     cls_entry ''FireAttackMult'' 4 0 1 0 100 1 (PInt 2) ''Fire Affinity'' (Some ''fire''),
     cls_entry ''AcidAttackMult'' 5 0 1 0 100 1 (PInt 2) ''Acid Affinity'' (Some ''acid''),
     cls_entry ''FreezeAttackMult'' 6 0 1 0 100 1 (PInt 2) ''Freeze Affinity'' (Some ''freeze''),
     cls_entry ''ElectricAttackMult'' 7 0 1 0 100 1 (PInt 2) ''Electric Affinity'' (Some ''electric''),
     cls_entry ''SlashDefendMult'' 8 0 2 0 100 1 (PInt 2) ''Slash Resistant'' (Some ''slash''),
     cls_entry ''PierceDefendMult'' 9 0 2 0 100 1 (PInt 2) ''Pierce Resistant'' (Some ''pierce''),
     cls_entry ''BluntDefendAttackMult'' 10 0 2 0 100 1 (PInt 2) ''Blunt Resistant'' (Some ''blunt''),
     cls_entry ''OccultDefendMult'' 11 0 2 0 100 1 (PInt 2) ''Occult Resistant'' (Some ''occult''),
     cls_entry ''FireDefendMult'' 12 0 2 0 100 1 (PInt 2) ''Fire Resistant'' (Some ''fire''),
     cls_entry ''AcidDefendMult'' 13 0 2 0 100 1 (PInt 2) ''Acid Resistant'' (Some ''acid''),
     cls_entry ''FreezeDefendMult'' 14 0 2 0 100 1 (PInt 2) ''Freeze Resistant'' (Some ''freeze''),
     cls_entry ''ElectricDefendMult'' 15 0 2 0 100 1 (PInt 2) ''Electric Resistant'' (Some ''electric''),
     cls_entry ''SlashAttackBonus'' 16 0 1 1 0 1 (PInt 2) ''Slash Optimized'' (Some ''slash''),
     cls_entry ''PierceAttackBonus'' 17 0 1 1 0 1 (PInt 2) ''Pierce Optimized'' (Some ''pierce''),
     cls_entry ''BluntAttackAttackBonus'' 18 0 1 1 0 1 (PInt 2) ''Blunt Optimized'' (Some ''blunt''),
     cls_entry ''OccultAttackBonus'' 19 0 1 1 0 1 (PInt 2) ''Occult Optimized'' (Some ''occult''),
     cls_entry ''FireAttackBonus'' 20 0 1 1 0 1 (PInt 2) ''Fire Optimized'' (Some ''fire''),
     cls_entry ''AcidAttackBonus'' 21 0 1 1 0 1 (PInt 2) ''Acid Optimized'' (Some ''acid''),
     cls_entry ''FreezeAttackBonus'' 22 0 1 1 0 1 (PInt 2) ''Freeze Optimized'' (Some ''freeze''),
     cls_entry ''ElectricAttackBonus'' 23 0 1 1 0 1 (PInt 2) ''Electric Optimized'' (Some ''electric''),
     cls_entry ''SlashDefendBonus'' 24 0 2 1 0 1 (PInt 2) ''Slash shielded'' (Some ''slash''),
     cls_entry ''PierceDefendBonus'' 25 0 2 1 0 1 (PInt 2) ''Pierce shielded'' (Some ''pierce''),
     cls_entry ''BluntDefendAttackBonus'' 26 0 2 1 0 1 (PInt 2) ''Blunt shielded'' (Some ''blunt''),
     cls_entry ''OccultDefendBonus'' 27 0 2 1 0 1 (PInt 2) ''Occult shielded'' (Some ''occult''),
     cls_entry ''FireDefendBonus'' 28 0 2 1 0 1 (PInt 2) ''Fire shielded'' (Some ''fire''),
     cls_entry ''AcidDefendBonus'' 29 0 2 1 0 1 (PInt 2) ''Acid shielded'' (Some ''acid''),
     cls_entry ''FreezeDefendBonus'' 30 0 2 1 0 1 (PInt 2) ''Freeze shielded'' (Some ''freeze''),
     cls_entry ''ElectricDefendBonus'' 31 0 2 1 0 1 (PInt 2) ''Electric shielded'' (Some ''electric''),
     cls_entry ''FirstHitBonus'' 32 1 1 1 0 1 (float_literal (1 / 2)) ''Sneak attack'' None,
     cls_entry ''KillAtPercentHealth'' 33 2 1 0 50 1 (PInt 5) ''Obliteration'' None,
     cls_entry ''Berserk'' 34 1 1 0 60 1 (PInt 2) ''Berserk'' None,
     cls_entry ''ChaosBrand'' 35 1 1 0 200 100 (float_literal (1 / 2)) ''Chaos Brand'' None,
     cls_entry ''LuckyHit'' 36 1 1 0 500 100 (float_literal (3 / 5)) ''Lucky Hit'' None,
     cls_entry ''PoisonTipped'' 37 2 1 0 10 1 (PInt 10) ''Poison Tipped'' None,
     cls_entry ''EldritchShield'' 38 2 0 0 3 1 (PInt 30) ''Eldritch Shield'' None,
     cls_entry ''Vampiric'' 39 3 5 0 10 1 (PInt 20) ''Vampiric'' None,
     cls_entry ''UnyieldingWill'' 40 3 0 0 2 1 (PInt 80) ''Unyielding Will'' None,
     cls_entry ''BloodThirst'' 41 2 0 0 20 1 (PInt 5) ''Blood Thirst'' None,
     cls_entry ''Blessed'' 42 1 8 0 50 1 (PInt 2) ''Blessed'' None,
     cls_entry ''Bashing'' 43 3 1 0 50 1 (PInt 2) ''Bashing'' None,
     cls_entry ''Thorns'' 44 1 2 0 0 1 (PInt 5) ''Thorns'' None,
     cls_entry ''FireAbsorb'' 45 1 4 0 100 1 (PInt 2) ''Fire Absorption'' (Some ''fire''),
     cls_entry ''AcidAbsorb'' 46 1 4 0 100 1 (PInt 2) ''Acid Absorption'' (Some ''acid''),
     cls_entry ''FreezeAbsorb'' 47 1 4 0 100 1 (PInt 2) ''Freeze Absorption'' (Some ''freeze''),
     cls_entry ''ElectricAbsorb'' 48 1 4 0 100 1 (PInt 2) ''Electric Absorption'' (Some ''electric''),
     cls_entry ''RouletteAttack'' 49 2 1 0 0 1 (float_literal (7 / 2)) ''Roulette Attack'' None,
     cls_entry ''IdiotGodBlessing'' 50 3 0 0 100 10 (PInt 5) ''Idiot God Blessing'' None,
     cls_entry ''Brutal'' 51 1 5 0 0 1 (PInt 3) ''Brutality'' None,
     cls_entry ''Ferocity'' 52 2 1 0 10 1 (PInt 10) ''Ferocity'' None,
     cls_entry ''LambEmbrace'' 53 2 9 0 0 1 (PInt 3) ''Lamb's Embrace'' None,
     cls_entry ''EldritchSynergy'' 54 3 1 0 0 1 (PInt 4) ''Eldritch Synergy'' None,
     cls_entry ''Dread'' 55 1 9 0 0 1 (float_literal (3 / 2)) ''Dread Aura'' None,
     cls_entry ''Akimbo'' 56 3 1 0 50 1 (PInt 2) ''Akimbo'' None,
     cls_entry ''OccultAbsorb'' 57 1 4 0 100 1 (PInt 2) ''Occult Absorption'' (Some ''occult''),
     cls_entry ''PlayerDamageMult'' 58 2 1 0 100 1 (PInt 2) ''Hearth-breaker'' None,
     cls_entry ''AdditionalHelper'' 59 3 0 0 0 1 (float_literal (3 / 10)) ''Shade Helper'' None]"
  by (simp add: catalog_registered cls_entry_def prepared_defs del: capitalize.simps)

section \<open>Lookups\<close>

lemma catalog_length: "length (LIST catalog) = 60"
  by (simp add: catalog_LIST)

lemma catalog_names_distinct: "distinct (map NAME (LIST catalog))"
  by (simp add: catalog_LIST cls_entry_def)

lemma catalog_cnames: "map cname (LIST catalog) = map cs_name (filter (\<lambda>st. \<not> nested st \<and> hd (cs_name st) \<noteq> CHR ''_'') module_classes)"
  by (simp add: catalog_LIST cls_entry_def module_classes_def nested_def)

lemma get_modifier_by_id:
  assumes "registry_inv reg" and "0 \<le> i" and "i < int (length (LIST reg))"
  shows "get_modifier i s reg
           = (Inr \<lparr>cls_of = LIST reg ! nat i, strength = s, duration = - 1\<rparr>, reg)"
    and "ID (LIST reg ! nat i) = Some i"
  using assms inv_ID_nth [of reg "nat i"]
  by (simp_all add: get_modifier_def list_index_in_range bind_err_def new_modifier_def
      Modifier_init_def)

lemma get_modifier_by_name:
  assumes "registry_inv reg" and "distinct (map NAME (LIST reg))"
    and "c \<in> set (LIST reg)" and "NAME c = Some n"
  shows "get_modifier_from_name n s reg
           = (Inr \<lparr>cls_of = c, strength = s, duration = - 1\<rparr>, reg)"
  using inv_name_known [OF assms]
  by (simp add: get_modifier_from_name_def new_modifier_def Modifier_init_def)

lemma inv_has_name:
  "registry_inv reg \<Longrightarrow> c \<in> set (LIST reg) \<Longrightarrow> \<exists>n. NAME c = Some n"
  unfolding registry_inv_def by blast

text \<open>
  Claim C10.  For every index \<open>i\<close> of the loaded catalog (\<open>0 \<le> i < 60\<close>) and every
  strength \<open>s\<close>, \<open>get_modifier i s\<close> returns the instance of the class at position
  \<open>i\<close>, whose \<open>ID\<close> is \<open>i\<close>, with strength \<open>s\<close> and duration \<open>-1\<close>;
  \<open>get_modifier_from_name\<close> on the \<open>NAME\<close> of that class returns the same instance;
  and both leave the registry as it was.
\<close>

theorem lookup_round_trip:
  assumes "0 \<le> i" and "i < int (length (LIST catalog))"
  shows "get_modifier i s catalog
           = (Inr \<lparr>cls_of = LIST catalog ! nat i, strength = s, duration = - 1\<rparr>, catalog) \<and>
         ID (LIST catalog ! nat i) = Some i \<and>
         (\<exists>n. NAME (LIST catalog ! nat i) = Some n \<and>
            get_modifier_from_name n s catalog
              = (Inr \<lparr>cls_of = LIST catalog ! nat i, strength = s, duration = - 1\<rparr>, catalog))"
proof -
  let ?c = "LIST catalog ! nat i"
  from assms have c: "?c \<in> set (LIST catalog)" by simp
  with catalog_inv obtain n where n: "NAME ?c = Some n" using inv_has_name by blast
  have "get_modifier_from_name n s catalog
      = (Inr \<lparr>cls_of = ?c, strength = s, duration = - 1\<rparr>, catalog)"
    using catalog_inv catalog_names_distinct c n by (rule get_modifier_by_name)
  with n get_modifier_by_id [OF catalog_inv assms] show ?thesis by blast
qed

theorem lookup_round_trip_witness:
  "(0::int) \<le> 16 \<and> 16 < int (length (LIST catalog)) \<and>
   get_modifier 16 9 catalog
     = (Inr \<lparr>cls_of = cls_entry ''SlashAttackBonus'' 16 0 1 1 0 1 (PInt 2) ''Slash Optimized''
          (Some ''slash''), strength = 9, duration = - 1\<rparr>, catalog) \<and>
   get_modifier_from_name ''Slash Optimized'' 9 catalog
     = (Inr \<lparr>cls_of = cls_entry ''SlashAttackBonus'' 16 0 1 1 0 1 (PInt 2) ''Slash Optimized''
          (Some ''slash''), strength = 9, duration = - 1\<rparr>, catalog)"
proof -
  have n: "LIST catalog ! nat 16
      = cls_entry ''SlashAttackBonus'' 16 0 1 1 0 1 (PInt 2) ''Slash Optimized'' (Some ''slash'')"
    by (simp add: catalog_LIST)
  have h: "(0::int) \<le> 16" "16 < int (length (LIST catalog))"
    by (simp_all add: catalog_length)
  from lookup_round_trip [OF h, of 9] show ?thesis
    unfolding n by (auto simp: cls_entry_def catalog_length)
qed

text \<open>
  Claim C5, as the code has it.  In a registry that an import built, \<open>get_modifier\<close>
  raises \<open>IndexError\<close> for every id from the number of registered classes on and for
  every id below minus that number, and \<open>get_modifier_from_name\<close> raises \<open>KeyError\<close>
  for every name that no registered class has; both are \<open>LookupError\<close>s, and the
  registry stays as it was.  (The ids from minus the number of classes to \<open>-1\<close> are
  not covered.)
\<close>

theorem lookup_unknown_fails:
  assumes "define_classes sts empty_registry = Inr reg"
  shows "(int (length (LIST reg)) \<le> i \<or> i < - int (length (LIST reg))
            \<longrightarrow> get_modifier i s reg = (Inl IndexError, reg)) \<and>
         ((\<forall>c \<in> set (LIST reg). NAME c \<noteq> Some n)
            \<longrightarrow> get_modifier_from_name n s reg = (Inl KeyError, reg))"
proof -
  from assms have inv: "registry_inv reg" by (rule import_inv)
  show ?thesis
    using inv_name_unknown [OF inv, of n]
    by (auto simp: get_modifier_def get_modifier_from_name_def bind_err_def
        list_index_out_of_range)
qed

theorem lookup_unknown_fails_witness:
  "define_classes module_classes empty_registry = Inr catalog \<and>
   get_modifier 60 7 catalog = (Inl IndexError, catalog) \<and>
   get_modifier (- 61) 7 catalog = (Inl IndexError, catalog) \<and>
   get_modifier_from_name ''Fireball'' 7 catalog = (Inl KeyError, catalog)"
proof -
  have l: "define_classes module_classes empty_registry = Inr catalog"
    using load_module_catalog by (simp add: load_module_def)
  have n: "\<forall>c \<in> set (LIST catalog). NAME c \<noteq> Some ''Fireball''"
    by (simp add: catalog_LIST cls_entry_def)
  from lookup_unknown_fails [OF l, of 60 7 "''Fireball''"]
    lookup_unknown_fails [OF l, of "- 61" 7 "''Fireball''"] n l
  show ?thesis by (simp add: catalog_length)
qed

text \<open>
  The id \<open>-1\<close> is the id of no registered class, and \<open>get_modifier\<close> returns an
  instance for it: the class registered last.
\<close>

theorem lookup_negative_id_counterexample:
  "Some (- 1) \<notin> set (map ID (LIST catalog)) \<and>
   get_modifier (- 1) 7 catalog
     = (Inr \<lparr>cls_of = cls_entry ''AdditionalHelper'' 59 3 0 0 0 1 (float_literal (3 / 10))
          ''Shade Helper'' None, strength = 7, duration = - 1\<rparr>, catalog)"
proof -
  have "list_index (LIST catalog) (- 1) = Inr (LIST catalog ! 59)"
    by (simp add: list_index_def catalog_length)
  moreover have "LIST catalog ! 59 = cls_entry ''AdditionalHelper'' 59 3 0 0 0 1
      (float_literal (3 / 10)) ''Shade Helper'' None"
    by (simp add: catalog_LIST)
  moreover have "Some (- 1) \<notin> set (map ID (LIST catalog))"
    by (simp add: catalog_LIST cls_entry_def)
  ultimately show ?thesis
    by (simp add: get_modifier_def bind_err_def new_modifier_def Modifier_init_def)
qed


end
